theory Spec2Isabelle
  imports Main
begin

section \<open>The char-load service: data model\<close>

text \<open>
  The file \<^verbatim>\<open>src/unnamed/part_000\<close> holds two listings of package \<^verbatim>\<open>charunit\<close>.
  The first (lines 1-191) launches the pulse with \<^verbatim>\<open>go bioCharProcess(s)\<close>; the second
  (lines 192-362) runs the pulse inside \<^verbatim>\<open>DoCommand\<close>. Both are embedded. A constant of
  the first listing keeps the source's name; the same function of the second listing
  carries the suffix \<open>2\<close>. \<^verbatim>\<open>Close\<close> reads the same in both and is embedded once.
\<close>

subsection \<open>Values, errors, panics\<close>

text \<open>
  A command is a Go \<^verbatim>\<open>map[string]interface{}\<close>. The dynamic types a value can have are
  a datatype; only \<open>VString\<close> passes the type assertion \<^verbatim>\<open>value.(string)\<close>.
\<close>

datatype go_value =
    VNil
  | VBool bool
  | VInt int
  | is_VString: VString string
  | VList "go_value list"
  | VMap "(string \<times> go_value) list"

text \<open>
  \<^verbatim>\<open>for key, value := range cmd\<close> visits the entries of a map in an order Go leaves
  unspecified. A command is therefore the list of the map's entries in the order the
  loop visits them in this call; the keys of a map are distinct.
\<close>

type_synonym command = "(string \<times> go_value) list"

definition maps_to :: "command \<Rightarrow> string \<Rightarrow> go_value \<Rightarrow> bool" where
  "maps_to cmd k v = (distinct (map fst cmd) \<and> map_of cmd k = Some v)"

definition has_key :: "command \<Rightarrow> string \<Rightarrow> bool" where
  "has_key cmd k = (map_of cmd k \<noteq> None)"

text \<open>
  One constructor for each place where the source makes an error, carrying the arguments
  of the format string. \<open>External\<close> is an error made by a collaborator (the board, a pin,
  the config converter).
\<close>

datatype go_error =
    FieldRequired string string
  | is_UnknownValue: UnknownValue string go_value
  | is_UnknownKey: UnknownKey string
  | is_UnknownCommandMap: UnknownCommandMap command
  | External string
  | DependencyNotFound string
  | DependencyTypeError string
  | NoSourceCamera string go_error
  | UnableToGetBoard string string

datatype go_panic =
    TypeAssertion go_value
  | NilDereference

datatype 'a outcome = Return 'a | Panic go_panic

subsection \<open>Collaborators: pins, boards, dependencies, raw configuration\<close>

text \<open>
  A pin handle is what \<^verbatim>\<open>pin.Set(ctx, high, nil)\<close> answers for each level: \<open>None\<close> is a
  \<^verbatim>\<open>nil\<close> error. A board answers \<^verbatim>\<open>Name()\<close> and \<^verbatim>\<open>GPIOPinByName(name)\<close>.
\<close>

type_synonym gpio_pin = "bool \<Rightarrow> go_error option"

record board =
  Name :: string
  GPIOPinByName :: "string \<Rightarrow> go_error + gpio_pin"

datatype resource = BoardResource board | OtherResource

type_synonym Dependencies = "string \<rightharpoonup> resource"

text \<open>
  \<^verbatim>\<open>board.FromDependencies\<close> is library code: it looks the name up and checks that the
  resource is a board. With an error it returns the zero \<^verbatim>\<open>Board\<close>, which is \<^verbatim>\<open>nil\<close>.
\<close>

definition FromDependencies :: "Dependencies \<Rightarrow> string \<Rightarrow> go_error + board" where
  "FromDependencies deps n =
     (case deps n of
        None \<Rightarrow> Inl (DependencyNotFound n)
      | Some OtherResource \<Rightarrow> Inl (DependencyTypeError n)
      | Some (BoardResource bd) \<Rightarrow> Inr bd)"

record Config =
  Board :: string

text \<open>
  A \<^verbatim>\<open>resource.Config\<close> answers \<^verbatim>\<open>ResourceName()\<close>, and
  \<^verbatim>\<open>resource.NativeConfig[*Config](rawConf)\<close> either converts it or fails.
\<close>

record resource_Config =
  ResourceName :: string
  NativeConfig :: "go_error + Config"

subsection \<open>Effects\<close>

text \<open>
  What a call does to the world is the list of its events, in order: log lines, pin
  lookups on the bound board, writes to a pin (named by the identifier it was looked up
  under), and sleeps. A \<^verbatim>\<open>time.Duration\<close> is a count of nanoseconds.
\<close>

datatype level = LInfo | LWarn | LError

datatype log_arg = AStr string | AErr go_error

datatype event =
    Logf level string "log_arg list"
  | Log level "log_arg list"
  | PinByName string
  | PinSet string bool
  | Sleep int

definition Second :: int where
  "Second = 1000000000"

fun pin_writes :: "event list \<Rightarrow> (string \<times> bool) list" where
  "pin_writes [] = []"
| "pin_writes (PinSet n h # es) = (n, h) # pin_writes es"
| "pin_writes (e # es) = pin_writes es"

fun sleeps :: "event list \<Rightarrow> int list" where
  "sleeps [] = []"
| "sleeps (Sleep d # es) = d # sleeps es"
| "sleeps (e # es) = sleeps es"

text \<open>The functions a \<^verbatim>\<open>go\<close> statement can launch.\<close>

datatype goroutine = BioCharProcess

subsection \<open>The service\<close>

text \<open>
  \<^verbatim>\<open>charUnitCharUnitLoad\<close>: \<open>cancelled\<close> says whether \<^verbatim>\<open>cancelFunc\<close> has been called, that
  is whether \<^verbatim>\<open>cancelCtx\<close> is done; \<open>b\<close> is \<open>None\<close> for a \<^verbatim>\<open>nil\<close> board. The logger is
  the event list.
\<close>

record charUnitCharUnitLoad =
  name :: string
  cfg :: Config
  cancelled :: bool
  b :: "board option"

section \<open>First listing (lines 1-191)\<close>

text \<open>\<^verbatim>\<open>Config.Validate\<close>, lines 52-59.\<close>

definition Validate :: "Config \<Rightarrow> string \<Rightarrow> go_error + string list" where
  "Validate c path =
     (let deps = [Board c] in
      if Board c = '''' then Inl (FieldRequired path ''board'')
      else Inr deps)"

text \<open>
  \<^verbatim>\<open>DoCommand\<close>, lines 114-136. Every branch of the loop body returns, so only the first
  entry visited is looked at. The result is the returned pair (\<open>Inr None\<close> is
  \<^verbatim>\<open>nil, nil\<close>) or a panic, the events of the call, and the goroutines it launched.
\<close>

type_synonym reply = "(go_error + command option) outcome"

fun DoCommand ::
  "charUnitCharUnitLoad \<Rightarrow> command \<Rightarrow> reply \<times> event list \<times> goroutine list" where
  "DoCommand s [] = (Return (Inl (UnknownCommandMap [])), [], [])"
| "DoCommand s ((key, val) # rest) =
     (if key = ''char_load'' then
        (let ev1 = [Logf LInfo ''DoCommand key=%v'' [AStr key]] in
         case val of
           VString command \<Rightarrow>
             (let ev2 = ev1 @ [Logf LInfo ''DoCommand command=%v'' [AStr command]] in
              if command = ''start'' then (Return (Inr None), ev2, [BioCharProcess])
              else (Return (Inl (UnknownValue key val)), ev2, []))
         | _ \<Rightarrow> (Panic (TypeAssertion val), ev1, []))
      else (Return (Inl (UnknownKey key)), [], []))"

text \<open>
  \<^verbatim>\<open>bioCharProcess\<close>, lines 138-169, run from its first line to its last. It reads
  \<^verbatim>\<open>s.b\<close> when it runs, and returns nothing: an error ends it with a log line.
\<close>

definition bioCharProcess :: "charUnitCharUnitLoad \<Rightarrow> event list" where
  "bioCharProcess s =
     (case b s of
        None \<Rightarrow> [Log LError [AStr ''s.b (Board component) is nil inside DoCommand'']]
      | Some bd \<Rightarrow>
         (case GPIOPinByName bd ''11'' of
            Inl err \<Rightarrow> [PinByName ''11'', Log LError [AErr err]]
          | Inr pin \<Rightarrow>
             [PinByName ''11'',
              Logf LInfo ''DoCommand fetched the pin successfully'' [],
              PinSet ''11'' True] @
             (case pin True of
                Some err \<Rightarrow> [Log LError [AErr err]]
              | None \<Rightarrow>
                 [Logf LInfo ''DoCommand set the pin to high successfully'' [],
                  Sleep (60 * Second),
                  Logf LInfo ''DoCommand finished sleeping'' [],
                  PinSet ''11'' False] @
                 (case pin False of
                    Some err \<Rightarrow> [Log LError [AErr err]]
                  | None \<Rightarrow>
                     [Logf LInfo ''DoCommand set the pin to low successfully'' []]))))"

text \<open>
  \<^verbatim>\<open>Close\<close>, lines 171-175 and 337-341: it calls \<^verbatim>\<open>s.cancelFunc()\<close> and returns \<^verbatim>\<open>nil\<close>.
\<close>

definition Close :: "charUnitCharUnitLoad \<Rightarrow> go_error option \<times> charUnitCharUnitLoad" where
  "Close s = (None, s\<lparr>cancelled := True\<rparr>)"

text \<open>
  \<^verbatim>\<open>Reconfigure\<close>, lines 178-191. The board is held in a local variable until the
  error check has passed.
\<close>

definition Reconfigure ::
  "charUnitCharUnitLoad \<Rightarrow> Dependencies \<Rightarrow> resource_Config
     \<Rightarrow> go_error option \<times> charUnitCharUnitLoad \<times> event list" where
  "Reconfigure s deps rawConf =
     (case NativeConfig rawConf of
        Inl err \<Rightarrow> (Some err, s, [])
      | Inr conf \<Rightarrow>
         (case FromDependencies deps (Board conf) of
            Inl err \<Rightarrow> (Some (NoSourceCamera (Board conf) err), s, [])
          | Inr bd \<Rightarrow>
             (None, s\<lparr>b := Some bd\<rparr>,
              [Log LInfo [AStr ''board is now configured to '', AStr (Name bd)]])))"

text \<open>
  \<^verbatim>\<open>NewCharUnitLoad\<close>, lines 81-104. When the conversion fails the fresh context is
  cancelled and dropped with the error.
\<close>

definition NewCharUnitLoad ::
  "Dependencies \<Rightarrow> string \<Rightarrow> resource_Config
     \<Rightarrow> (go_error + charUnitCharUnitLoad) \<times> event list" where
  "NewCharUnitLoad deps nm rawConf =
     (case NativeConfig rawConf of
        Inl err \<Rightarrow> (Inl err, [])
      | Inr conf \<Rightarrow>
         (let s = \<lparr>name = nm, cfg = conf, cancelled = False, b = None\<rparr> in
          case Reconfigure s deps rawConf of
            (Some err, s', ev) \<Rightarrow> (Inl err, ev)
          | (None, s', ev) \<Rightarrow> (Inr s', ev)))"

text \<open>\<^verbatim>\<open>newCharUnitCharUnitLoad\<close>, lines 75-79.\<close>

definition newCharUnitCharUnitLoad ::
  "Dependencies \<Rightarrow> resource_Config \<Rightarrow> (go_error + charUnitCharUnitLoad) \<times> event list" where
  "newCharUnitCharUnitLoad deps rawConf = NewCharUnitLoad deps (ResourceName rawConf) rawConf"

section \<open>Second listing (lines 192-362)\<close>

text \<open>\<^verbatim>\<open>Config.Validate\<close>, lines 243-248.\<close>

definition Validate2 :: "Config \<Rightarrow> string \<Rightarrow> go_error + string list" where
  "Validate2 c path =
     (if Board c = '''' then Inl (FieldRequired path ''board'')
      else Inr [])"

text \<open>
  \<^verbatim>\<open>NewCharUnitLoad\<close>, lines 274-286, and \<^verbatim>\<open>newCharUnitCharUnitLoad\<close>, lines 264-272.
  The constructor does not call \<^verbatim>\<open>Reconfigure\<close>: the new service has a \<^verbatim>\<open>nil\<close> board.
\<close>

definition NewCharUnitLoad2 ::
  "Dependencies \<Rightarrow> string \<Rightarrow> Config \<Rightarrow> go_error + charUnitCharUnitLoad" where
  "NewCharUnitLoad2 deps nm conf =
     Inr \<lparr>name = nm, cfg = conf, cancelled = False, b = None\<rparr>"

definition newCharUnitCharUnitLoad2 ::
  "Dependencies \<Rightarrow> resource_Config \<Rightarrow> go_error + charUnitCharUnitLoad" where
  "newCharUnitCharUnitLoad2 deps rawConf =
     (case NativeConfig rawConf of
        Inl err \<Rightarrow> Inl err
      | Inr conf \<Rightarrow> NewCharUnitLoad2 deps (ResourceName rawConf) conf)"

text \<open>
  \<^verbatim>\<open>DoCommand\<close>, lines 296-335: the pulse runs inside the call, and its errors are
  returned. \<^verbatim>\<open>s.b.GPIOPinByName\<close> on a \<^verbatim>\<open>nil\<close> board is a nil dereference.
\<close>

fun DoCommand2 :: "charUnitCharUnitLoad \<Rightarrow> command \<Rightarrow> reply \<times> event list" where
  "DoCommand2 s [] = (Return (Inl (UnknownCommandMap [])), [])"
| "DoCommand2 s ((key, val) # rest) =
     (if key = ''char_load'' then
        (let ev1 = [Logf LInfo ''DoCommand key=%v'' [AStr key]] in
         case val of
           VString command \<Rightarrow>
             (let ev2 = ev1 @ [Logf LInfo ''DoCommand command=%v'' [AStr command]] in
              if command = ''start'' then
                (case b s of
                   None \<Rightarrow> (Panic NilDereference, ev2)
                 | Some bd \<Rightarrow>
                    (case GPIOPinByName bd ''11'' of
                       Inl err \<Rightarrow> (Return (Inl err), ev2 @ [PinByName ''11''])
                     | Inr pin \<Rightarrow>
                        (case pin True of
                           Some err \<Rightarrow>
                             (Return (Inl err), ev2 @ [PinByName ''11'', PinSet ''11'' True])
                         | None \<Rightarrow>
                            (let ev3 = ev2 @ [PinByName ''11'', PinSet ''11'' True,
                                              Sleep (60 * Second), PinSet ''11'' False] in
                             case pin False of
                               Some err \<Rightarrow> (Return (Inl err), ev3)
                             | None \<Rightarrow> (Return (Inr None), ev3)))))
              else (Return (Inl (UnknownValue key val)), ev2))
         | _ \<Rightarrow> (Panic (TypeAssertion val), ev1))
      else (Return (Inl (UnknownKey key)), []))"

text \<open>
  \<^verbatim>\<open>Reconfigure\<close>, lines 344-362. \<^verbatim>\<open>s.name\<close> is overwritten first, and
  \<^verbatim>\<open>s.b, err = board.FromDependencies(...)\<close> stores the returned board before the error
  is checked: with an error that is the \<^verbatim>\<open>nil\<close> board.
\<close>

definition Reconfigure2 ::
  "charUnitCharUnitLoad \<Rightarrow> Dependencies \<Rightarrow> resource_Config
     \<Rightarrow> go_error option \<times> charUnitCharUnitLoad \<times> event list" where
  "Reconfigure2 s deps conf =
     (case NativeConfig conf of
        Inl err \<Rightarrow>
          (Some err, s, [Log LWarn [AStr ''Error reconfiguring module with '', AErr err]])
      | Inr serviceConfig \<Rightarrow>
         (let s1 = s\<lparr>name := ResourceName conf\<rparr> in
          case FromDependencies deps (Board serviceConfig) of
            Inl err \<Rightarrow>
              (Some (UnableToGetBoard (Board serviceConfig) (name s1)), s1\<lparr>b := None\<rparr>, [])
          | Inr bd \<Rightarrow>
             (None, s1\<lparr>b := Some bd\<rparr>,
              [Log LInfo [AStr ''board is now configured to '', AStr (Name bd)]])))"

section \<open>Goroutines of the first listing\<close>

text \<open>
  \<^verbatim>\<open>go bioCharProcess(s)\<close> returns at once and the function runs on its own. The one
  place where it waits is \<^verbatim>\<open>time.Sleep(60 * time.Second)\<close>, line 159. A launched
  \<^verbatim>\<open>bioCharProcess\<close> is therefore in one of three states: not yet run, inside the sleep
  holding its pin handle, or returned.
\<close>

datatype task = Spawned | Holding gpio_pin | Finished

text \<open>Lines 139-157: from the first line to the call of \<^verbatim>\<open>time.Sleep\<close>.\<close>

definition bioCharProcess_begin :: "charUnitCharUnitLoad \<Rightarrow> event list \<times> task" where
  "bioCharProcess_begin s =
     (case b s of
        None \<Rightarrow>
          ([Log LError [AStr ''s.b (Board component) is nil inside DoCommand'']], Finished)
      | Some bd \<Rightarrow>
         (case GPIOPinByName bd ''11'' of
            Inl err \<Rightarrow> ([PinByName ''11'', Log LError [AErr err]], Finished)
          | Inr pin \<Rightarrow>
             (case pin True of
                Some err \<Rightarrow>
                  ([PinByName ''11'',
                    Logf LInfo ''DoCommand fetched the pin successfully'' [],
                    PinSet ''11'' True,
                    Log LError [AErr err]], Finished)
              | None \<Rightarrow>
                  ([PinByName ''11'',
                    Logf LInfo ''DoCommand fetched the pin successfully'' [],
                    PinSet ''11'' True,
                    Logf LInfo ''DoCommand set the pin to high successfully'' []],
                   Holding pin))))"

text \<open>Lines 159-168: from the return of \<^verbatim>\<open>time.Sleep\<close> to the last line.\<close>

definition bioCharProcess_resume :: "gpio_pin \<Rightarrow> event list" where
  "bioCharProcess_resume pin =
     [Sleep (60 * Second),
      Logf LInfo ''DoCommand finished sleeping'' [],
      PinSet ''11'' False] @
     (case pin False of
        Some err \<Rightarrow> [Log LError [AErr err]]
      | None \<Rightarrow> [Logf LInfo ''DoCommand set the pin to low successfully'' []])"

text \<open>
  The running program: the service, the goroutines launched so far in launch order, and
  the events so far.
\<close>

record system =
  svc :: charUnitCharUnitLoad
  tasks :: "task list"
  trace :: "event list"

fun in_flight :: "task \<Rightarrow> bool" where
  "in_flight Finished = False"
| "in_flight _ = True"

fun holding :: "task \<Rightarrow> bool" where
  "holding (Holding pin) = True"
| "holding _ = False"

text \<open>A caller's \<^verbatim>\<open>DoCommand\<close>: its events are appended, its goroutines are launched.\<close>

definition call_DoCommand :: "system \<Rightarrow> command \<Rightarrow> reply \<times> system" where
  "call_DoCommand sys cmd =
     (case DoCommand (svc sys) cmd of
        (r, ev, gs) \<Rightarrow>
          (r, sys\<lparr>tasks := tasks sys @ map (\<lambda>g. Spawned) gs, trace := trace sys @ ev\<rparr>))"

definition call_Close :: "system \<Rightarrow> go_error option \<times> system" where
  "call_Close sys = (case Close (svc sys) of (e, s') \<Rightarrow> (e, sys\<lparr>svc := s'\<rparr>))"

text \<open>
  The scheduler lets goroutine \<open>i\<close> run up to its next wait: a launched one runs to the
  sleep or to an early return, a sleeping one wakes and runs to the end.
\<close>

definition schedule :: "system \<Rightarrow> nat \<Rightarrow> system" where
  "schedule sys i =
     (if i < length (tasks sys) then
        (case tasks sys ! i of
           Spawned \<Rightarrow>
             (case bioCharProcess_begin (svc sys) of
                (ev, t) \<Rightarrow> sys\<lparr>tasks := (tasks sys)[i := t], trace := trace sys @ ev\<rparr>)
         | Holding pin \<Rightarrow>
             sys\<lparr>tasks := (tasks sys)[i := Finished],
                 trace := trace sys @ bioCharProcess_resume pin\<rparr>
         | Finished \<Rightarrow> sys)
      else sys)"

section \<open>Concrete collaborators\<close>

definition healthy_pin :: gpio_pin where
  "healthy_pin = (\<lambda>high. None)"

definition healthy_board :: board where
  "healthy_board = \<lparr>Name = ''b1'', GPIOPinByName = (\<lambda>n. Inr healthy_pin)\<rparr>"

definition pinless_board :: board where
  "pinless_board = \<lparr>Name = ''b1'', GPIOPinByName = (\<lambda>n. Inl (External ''no such pin''))\<rparr>"

definition deps_b1 :: Dependencies where
  "deps_b1 = [''b1'' \<mapsto> BoardResource healthy_board]"

definition conf_b1 :: resource_Config where
  "conf_b1 = \<lparr>ResourceName = ''foo'', NativeConfig = Inr \<lparr>Board = ''b1''\<rparr>\<rparr>"

definition service_b1 :: charUnitCharUnitLoad where
  "service_b1 = \<lparr>name = ''foo'', cfg = \<lparr>Board = ''b1''\<rparr>, cancelled = False,
                 b = Some healthy_board\<rparr>"

definition start_cmd :: command where
  "start_cmd = [(''char_load'', VString ''start'')]"

definition system_b1 :: system where
  "system_b1 = \<lparr>svc = service_b1, tasks = [], trace = []\<rparr>"

text \<open>A board without pin 11, a board whose pin refuses every write, and services bound to them.\<close>

definition failing_service :: charUnitCharUnitLoad where
  "failing_service = service_b1\<lparr>b := Some pinless_board\<rparr>"

definition stuck_board :: board where
  "stuck_board =
     \<lparr>Name = ''b1'', GPIOPinByName = (\<lambda>n. Inr (\<lambda>high. Some (External ''write failed'')))\<rparr>"

definition stuck_service :: charUnitCharUnitLoad where
  "stuck_service = service_b1\<lparr>b := Some stuck_board\<rparr>"

text \<open>
  One start command whose goroutine has run up to its sleep; then a second start command
  whose goroutine has done the same.
\<close>

definition holding_system :: system where
  "holding_system = schedule (snd (call_DoCommand system_b1 start_cmd)) 0"

definition overlapping_system :: system where
  "overlapping_system = schedule (snd (call_DoCommand holding_system start_cmd)) 1"

section \<open>Basic facts\<close>

text \<open>The two halves of \<^verbatim>\<open>bioCharProcess\<close> make up the whole.\<close>

lemma bioCharProcess_phases:
  "bioCharProcess s =
     (case bioCharProcess_begin s of
        (ev, Holding pin) \<Rightarrow> ev @ bioCharProcess_resume pin
      | (ev, t) \<Rightarrow> ev)"
  by (simp add: bioCharProcess_def bioCharProcess_begin_def bioCharProcess_resume_def
      split: option.splits sum.splits)

lemma begin_leaves_Spawned: "bioCharProcess_begin s \<noteq> (ev, Spawned)"
  by (simp add: bioCharProcess_begin_def split: option.splits sum.splits)

lemma begin_ignores_cancelled:
  "bioCharProcess_begin (s\<lparr>cancelled := c\<rparr>) = bioCharProcess_begin s"
  by (simp add: bioCharProcess_begin_def)

text \<open>Configuring with board \<open>b1\<close> gives the service the examples start from.\<close>

lemma NewCharUnitLoad_b1:
  "NewCharUnitLoad deps_b1 ''foo'' conf_b1 =
     (Inr service_b1, [Log LInfo [AStr ''board is now configured to '', AStr ''b1'']])"
  by (simp add: NewCharUnitLoad_def Reconfigure_def FromDependencies_def deps_b1_def
      conf_b1_def service_b1_def healthy_board_def)

text \<open>A service built by the first listing's constructor has a board.\<close>

lemma NewCharUnitLoad_binds_board:
  assumes "NewCharUnitLoad deps nm rawConf = (Inr s, ev)"
  shows "b s \<noteq> None"
  using assms
  by (auto simp: NewCharUnitLoad_def Reconfigure_def Let_def split: sum.splits)

text \<open>
  In the second listing the service is built without a board, and \<^verbatim>\<open>Reconfigure\<close> with
  board \<open>b1\<close> among the dependencies binds it.
\<close>

lemma Reconfigure2_binds_b1:
  "NewCharUnitLoad2 deps_b1 ''foo'' \<lparr>Board = ''b1''\<rparr> =
     Inr \<lparr>name = ''foo'', cfg = \<lparr>Board = ''b1''\<rparr>, cancelled = False, b = None\<rparr>
   \<and> fst (snd (Reconfigure2
                  \<lparr>name = ''foo'', cfg = \<lparr>Board = ''b1''\<rparr>, cancelled = False, b = None\<rparr>
                  deps_b1 conf_b1)) = service_b1"
  by (simp add: NewCharUnitLoad2_def Reconfigure2_def FromDependencies_def deps_b1_def
      conf_b1_def service_b1_def)

text \<open>
  A start command followed by two turns of the goroutine it launched: the events are
  those of the call and then those of \<^verbatim>\<open>bioCharProcess\<close>.
\<close>

lemma launched_pulse_runs:
  "trace (foldl schedule (snd (call_DoCommand sys ((''char_load'', VString ''start'') # rest)))
            [length (tasks sys), length (tasks sys)]) =
     trace sys @
     [Logf LInfo ''DoCommand key=%v'' [AStr ''char_load''],
      Logf LInfo ''DoCommand command=%v'' [AStr ''start'']] @
     bioCharProcess (svc sys)"
  by (simp add: call_DoCommand_def schedule_def bioCharProcess_phases nth_append
      begin_leaves_Spawned split: prod.splits task.splits)

text \<open>Closing before a goroutine's turn or after it gives the same system.\<close>

lemma schedule_after_Close:
  "schedule (snd (call_Close sys)) i = snd (call_Close (schedule sys i))"
  by (simp add: schedule_def call_Close_def Close_def begin_ignores_cancelled
      split: task.splits prod.splits)

lemma run_after_Close:
  "foldl schedule (snd (call_Close sys)) js = snd (call_Close (foldl schedule sys js))"
proof (induction js arbitrary: sys)
  case Nil
  show ?case by simp
next
  case (Cons i js)
  have "foldl schedule (snd (call_Close sys)) (i # js) =
        foldl schedule (snd (call_Close (schedule sys i))) js"
    by (simp add: schedule_after_Close)
  also have "\<dots> = snd (call_Close (foldl schedule (schedule sys i) js))"
    by (rule Cons.IH)
  finally show ?case by simp
qed

text \<open>The first listing's \<^verbatim>\<open>Validate\<close> names the board as the one dependency.\<close>

lemma Validate_first_listing:
  "Validate c path =
     (if Board c = '''' then Inl (FieldRequired path ''board'') else Inr [Board c])"
  by (simp add: Validate_def)

text \<open>The first listing's \<^verbatim>\<open>Reconfigure\<close> changes nothing when it returns an error.\<close>

lemma Reconfigure_failure_keeps_service:
  assumes "fst (Reconfigure s deps rawConf) \<noteq> None"
  shows "fst (snd (Reconfigure s deps rawConf)) = s"
  using assms by (simp add: Reconfigure_def split: sum.splits)

lemma Reconfigure_unresolved_board:
  assumes "NativeConfig rawConf = Inr conf" and "FromDependencies deps (Board conf) = Inl err"
  shows "Reconfigure s deps rawConf = (Some (NoSourceCamera (Board conf) err), s, [])"
  using assms by (simp add: Reconfigure_def)

section \<open>The start command\<close>

text \<open>
  Claim C1. When the bound board resolves pin 11 and both writes succeed, a command
  whose visited entry is \<open>char_load = start\<close> makes the pulse on pin 11: in the first
  listing \<^verbatim>\<open>DoCommand\<close> launches \<^verbatim>\<open>bioCharProcess\<close>, which writes the pin high, sleeps
  \<open>60 * Second\<close> and writes it low; in the second listing \<^verbatim>\<open>DoCommand\<close> does the same
  itself. The pin name and the duration are the same for every rest of the command.
\<close>

theorem start_pulses_pin_11:
  assumes "b (svc sys) = Some bd" and "GPIOPinByName bd ''11'' = Inr pin"
    and "pin True = None" and "pin False = None"
  shows "DoCommand (svc sys) ((''char_load'', VString ''start'') # rest) =
           (Return (Inr None),
            [Logf LInfo ''DoCommand key=%v'' [AStr ''char_load''],
             Logf LInfo ''DoCommand command=%v'' [AStr ''start'']],
            [BioCharProcess])
       \<and> bioCharProcess (svc sys) =
           [PinByName ''11'',
            Logf LInfo ''DoCommand fetched the pin successfully'' [],
            PinSet ''11'' True,
            Logf LInfo ''DoCommand set the pin to high successfully'' [],
            Sleep (60 * Second),
            Logf LInfo ''DoCommand finished sleeping'' [],
            PinSet ''11'' False,
            Logf LInfo ''DoCommand set the pin to low successfully'' []]
       \<and> trace (foldl schedule
                  (snd (call_DoCommand sys ((''char_load'', VString ''start'') # rest)))
                  [length (tasks sys), length (tasks sys)]) =
           trace sys @
           [Logf LInfo ''DoCommand key=%v'' [AStr ''char_load''],
            Logf LInfo ''DoCommand command=%v'' [AStr ''start'']] @
           bioCharProcess (svc sys)
       \<and> DoCommand2 (svc sys) ((''char_load'', VString ''start'') # rest) =
           (Return (Inr None),
            [Logf LInfo ''DoCommand key=%v'' [AStr ''char_load''],
             Logf LInfo ''DoCommand command=%v'' [AStr ''start''],
             PinByName ''11'', PinSet ''11'' True, Sleep (60 * Second), PinSet ''11'' False])
       \<and> 60 * Second = 60000000000"
proof -
  have "bioCharProcess (svc sys) =
           [PinByName ''11'',
            Logf LInfo ''DoCommand fetched the pin successfully'' [],
            PinSet ''11'' True,
            Logf LInfo ''DoCommand set the pin to high successfully'' [],
            Sleep (60 * Second),
            Logf LInfo ''DoCommand finished sleeping'' [],
            PinSet ''11'' False,
            Logf LInfo ''DoCommand set the pin to low successfully'' []]"
    using assms by (simp add: bioCharProcess_def)
  moreover have "DoCommand2 (svc sys) ((''char_load'', VString ''start'') # rest) =
           (Return (Inr None),
            [Logf LInfo ''DoCommand key=%v'' [AStr ''char_load''],
             Logf LInfo ''DoCommand command=%v'' [AStr ''start''],
             PinByName ''11'', PinSet ''11'' True, Sleep (60 * Second), PinSet ''11'' False])"
    using assms by simp
  moreover have "60 * Second = 60000000000"
    by (simp add: Second_def)
  ultimately show ?thesis
    using launched_pulse_runs [of sys rest] by simp
qed

text \<open>Claim C1 on the service configured with board \<open>b1\<close> and the command of one entry.\<close>

theorem start_pulses_pin_11_witness:
  "b (svc system_b1) = Some healthy_board
   \<and> GPIOPinByName healthy_board ''11'' = Inr healthy_pin
   \<and> healthy_pin True = None \<and> healthy_pin False = None
   \<and> DoCommand (svc system_b1) start_cmd =
       (Return (Inr None),
        [Logf LInfo ''DoCommand key=%v'' [AStr ''char_load''],
         Logf LInfo ''DoCommand command=%v'' [AStr ''start'']],
        [BioCharProcess])
   \<and> pin_writes (bioCharProcess (svc system_b1)) = [(''11'', True), (''11'', False)]
   \<and> sleeps (bioCharProcess (svc system_b1)) = [60000000000]
   \<and> pin_writes (trace (foldl schedule (snd (call_DoCommand system_b1 start_cmd)) [0, 0])) =
       [(''11'', True), (''11'', False)]
   \<and> pin_writes (snd (DoCommand2 (svc system_b1) start_cmd)) = [(''11'', True), (''11'', False)]
   \<and> sleeps (snd (DoCommand2 (svc system_b1) start_cmd)) = [60000000000]"
proof -
  have h1: "b (svc system_b1) = Some healthy_board"
    by (simp add: system_b1_def service_b1_def)
  have h2: "GPIOPinByName healthy_board ''11'' = Inr healthy_pin"
    by (simp add: healthy_board_def)
  have h3: "healthy_pin True = None" and h4: "healthy_pin False = None"
    by (simp_all add: healthy_pin_def)
  have h5: "tasks system_b1 = []" and h6: "trace system_b1 = []"
    by (simp_all add: system_b1_def)
  from start_pulses_pin_11 [OF h1 h2 h3 h4, of "[]"] h1 h2 h3 h4 h5 h6 show ?thesis
    by (simp add: start_cmd_def)
qed

text \<open>
  Claim C2 as stated fails on the second listing: there \<^verbatim>\<open>DoCommand\<close> returns the
  pin-lookup error to its caller, and on a healthy board it returns only after the sleep.
\<close>

theorem inline_DoCommand_returns_pulse_error:
  "fst (DoCommand2 failing_service start_cmd) = Return (Inl (External ''no such pin''))
   \<and> fst (DoCommand2 service_b1 start_cmd) = Return (Inr None)
   \<and> sleeps (snd (DoCommand2 service_b1 start_cmd)) = [60000000000]"
  by (simp add: failing_service_def service_b1_def pinless_board_def healthy_board_def
      healthy_pin_def start_cmd_def Second_def)

text \<open>
  Claim C2, amended. In the first listing \<^verbatim>\<open>DoCommand\<close> on a start command returns
  \<^verbatim>\<open>nil, nil\<close> for every service, whatever its board: it logs two lines, touches no pin,
  does not sleep, and leaves the pulse as a launched goroutine that has not yet run. In
  the second listing the pulse runs inside the call: a failed pin lookup or a failed
  write is returned to the caller, and a call whose first write succeeds returns after
  the sleep of \<open>60 * Second\<close>.
\<close>

theorem start_returns_before_pulse:
  "DoCommand s ((''char_load'', VString ''start'') # rest) =
     (Return (Inr None),
      [Logf LInfo ''DoCommand key=%v'' [AStr ''char_load''],
       Logf LInfo ''DoCommand command=%v'' [AStr ''start'']],
      [BioCharProcess])
   \<and> call_DoCommand sys ((''char_load'', VString ''start'') # rest) =
     (Return (Inr None),
      sys\<lparr>tasks := tasks sys @ [Spawned],
          trace := trace sys @
            [Logf LInfo ''DoCommand key=%v'' [AStr ''char_load''],
             Logf LInfo ''DoCommand command=%v'' [AStr ''start'']]\<rparr>)
   \<and> (\<forall>bd err. b s = Some bd \<and> GPIOPinByName bd ''11'' = Inl err \<longrightarrow>
         fst (DoCommand2 s ((''char_load'', VString ''start'') # rest)) = Return (Inl err))
   \<and> (\<forall>bd pin err.
         b s = Some bd \<and> GPIOPinByName bd ''11'' = Inr pin \<and> pin True = Some err \<longrightarrow>
         fst (DoCommand2 s ((''char_load'', VString ''start'') # rest)) = Return (Inl err))
   \<and> (\<forall>bd pin.
         b s = Some bd \<and> GPIOPinByName bd ''11'' = Inr pin \<and> pin True = None \<longrightarrow>
         sleeps (snd (DoCommand2 s ((''char_load'', VString ''start'') # rest))) =
           [60 * Second]
         \<and> fst (DoCommand2 s ((''char_load'', VString ''start'') # rest)) =
             (case pin False of Some err \<Rightarrow> Return (Inl err) | None \<Rightarrow> Return (Inr None)))"
  by (simp add: call_DoCommand_def split: option.splits)

text \<open>
  Claim C2, amended, on a board without pin 11, a board whose pin refuses writes, and a
  healthy board.
\<close>

theorem start_returns_before_pulse_witness:
  "fst (DoCommand failing_service start_cmd) = Return (Inr None)
   \<and> b failing_service = Some pinless_board
   \<and> GPIOPinByName pinless_board ''11'' = Inl (External ''no such pin'')
   \<and> fst (DoCommand2 failing_service start_cmd) = Return (Inl (External ''no such pin''))
   \<and> fst (DoCommand stuck_service start_cmd) = Return (Inr None)
   \<and> fst (DoCommand2 stuck_service start_cmd) = Return (Inl (External ''write failed''))
   \<and> b service_b1 = Some healthy_board
   \<and> GPIOPinByName healthy_board ''11'' = Inr healthy_pin \<and> healthy_pin True = None
   \<and> sleeps (snd (DoCommand2 service_b1 start_cmd)) = [60 * Second]"
  using start_returns_before_pulse [of failing_service "[]" system_b1]
    start_returns_before_pulse [of stuck_service "[]" system_b1]
    start_returns_before_pulse [of service_b1 "[]" system_b1]
  by (simp add: failing_service_def stuck_service_def service_b1_def pinless_board_def
      stuck_board_def healthy_board_def healthy_pin_def start_cmd_def)

section \<open>Close and overlapping pulses\<close>

text \<open>
  Claim C3 as stated fails: after a start command whose goroutine has reached its sleep,
  \<^verbatim>\<open>Close\<close> returns \<^verbatim>\<open>nil\<close> and the goroutine is still sleeping; at its next turn it
  finishes the sleep and writes the pin low.
\<close>

theorem Close_leaves_pulse_holding:
  "map holding (tasks holding_system) = [True]
   \<and> pin_writes (trace holding_system) = [(''11'', True)]
   \<and> fst (call_Close holding_system) = None
   \<and> map holding (tasks (snd (call_Close holding_system))) = [True]
   \<and> pin_writes (trace (schedule (snd (call_Close holding_system)) 0)) =
       [(''11'', True), (''11'', False)]
   \<and> sleeps (trace (schedule (snd (call_Close holding_system)) 0)) = [60000000000]"
  by (simp add: holding_system_def system_b1_def service_b1_def healthy_board_def
      healthy_pin_def start_cmd_def call_DoCommand_def call_Close_def Close_def schedule_def
      bioCharProcess_begin_def bioCharProcess_resume_def Second_def)

text \<open>
  Claim C3, amended. \<^verbatim>\<open>Close\<close> returns \<^verbatim>\<open>nil\<close> without a panic and marks the context
  cancelled, and nothing reads that mark: the launched goroutines and the events are as
  before the call, and every later run of the goroutines goes exactly as it would have
  gone without \<^verbatim>\<open>Close\<close>. A pulse in flight stays in flight.
\<close>

theorem Close_does_not_reach_tasks:
  "fst (call_Close sys) = None
   \<and> cancelled (svc (snd (call_Close sys)))
   \<and> tasks (snd (call_Close sys)) = tasks sys
   \<and> trace (snd (call_Close sys)) = trace sys
   \<and> tasks (foldl schedule (snd (call_Close sys)) js) = tasks (foldl schedule sys js)
   \<and> trace (foldl schedule (snd (call_Close sys)) js) = trace (foldl schedule sys js)"
proof -
  have "fst (call_Close sys) = None" "cancelled (svc (snd (call_Close sys)))"
       "tasks (snd (call_Close sys)) = tasks sys" "trace (snd (call_Close sys)) = trace sys"
    by (simp_all add: call_Close_def Close_def)
  moreover have
    "tasks (snd (call_Close (foldl schedule sys js))) = tasks (foldl schedule sys js)"
    "trace (snd (call_Close (foldl schedule sys js))) = trace (foldl schedule sys js)"
    by (simp_all add: call_Close_def Close_def)
  ultimately show ?thesis by (simp add: run_after_Close)
qed

text \<open>
  Claim C4 as stated fails: a second start command, given while the first pulse is in
  its sleep, launches a second pulse; both hold pin 11 high at once.
\<close>

theorem second_start_overlaps:
  "map holding (tasks overlapping_system) = [True, True]
   \<and> pin_writes (trace overlapping_system) = [(''11'', True), (''11'', True)]"
  by (simp add: overlapping_system_def holding_system_def system_b1_def service_b1_def
      healthy_board_def healthy_pin_def start_cmd_def call_DoCommand_def schedule_def
      bioCharProcess_begin_def)

text \<open>
  Claim C4, amended. The first listing keeps no in-flight flag: every start command
  launches one more goroutine whatever is already running, so the number of pulses in
  flight grows by one, and the new goroutine's first turn begins its pulse as it would
  on an idle service.
\<close>

theorem start_always_launches:
  "tasks (snd (call_DoCommand sys ((''char_load'', VString ''start'') # rest))) =
     tasks sys @ [Spawned]
   \<and> length (filter in_flight
        (tasks (snd (call_DoCommand sys ((''char_load'', VString ''start'') # rest))))) =
     Suc (length (filter in_flight (tasks sys)))
   \<and> tasks (schedule (snd (call_DoCommand sys ((''char_load'', VString ''start'') # rest)))
        (length (tasks sys))) =
     tasks sys @ [snd (bioCharProcess_begin (svc sys))]"
  by (simp add: call_DoCommand_def schedule_def nth_append split: prod.splits)

section \<open>Validation\<close>

text \<open>
  Claim C5 at the configuration with board \<open>b1\<close> and path \<open>''''\<close>: the second listing's
  \<^verbatim>\<open>Validate\<close> returns the empty dependency list, where the first listing's returns the
  board name. Both return the required-field error for the empty board.
\<close>

theorem Validate2_declares_no_dependency:
  "Validate2 \<lparr>Board = ''b1''\<rparr> '''' = Inr []
   \<and> Validate \<lparr>Board = ''b1''\<rparr> '''' = Inr [''b1'']
   \<and> Validate2 \<lparr>Board = ''''\<rparr> '''' = Inl (FieldRequired '''' ''board'')
   \<and> Validate \<lparr>Board = ''''\<rparr> '''' = Inl (FieldRequired '''' ''board'')"
  by (simp add: Validate_def Validate2_def)

section \<open>Commands that are not a start command\<close>

text \<open>
  Claim C6 as stated fails twice: a value that is not a string ends in a panic, and in a
  map with a second key the loop may visit that key first and report it instead.
\<close>

theorem char_load_value_not_always_reported:
  "maps_to [(''char_load'', VInt 5)] ''char_load'' (VInt 5)
   \<and> fst (DoCommand service_b1 [(''char_load'', VInt 5)]) = Panic (TypeAssertion (VInt 5))
   \<and> maps_to [(''mode'', VString ''x''), (''char_load'', VString ''stop'')]
        ''char_load'' (VString ''stop'')
   \<and> fst (DoCommand service_b1 [(''mode'', VString ''x''), (''char_load'', VString ''stop'')]) =
        Return (Inl (UnknownKey ''mode''))"
  by (simp add: maps_to_def)

text \<open>
  Claim C6, amended. When the entry the loop visits first (the only one, in a map of one
  entry) maps \<open>char_load\<close> to a string other than \<open>start\<close>, \<^verbatim>\<open>DoCommand\<close> returns the
  unknown-value error carrying the key and the value; it launches no goroutine and
  touches no pin. Both listings.
\<close>

theorem unknown_string_value_reported:
  assumes "command \<noteq> ''start''"
  shows "DoCommand s ((''char_load'', VString command) # rest) =
           (Return (Inl (UnknownValue ''char_load'' (VString command))),
            [Logf LInfo ''DoCommand key=%v'' [AStr ''char_load''],
             Logf LInfo ''DoCommand command=%v'' [AStr command]],
            [])
       \<and> DoCommand2 s ((''char_load'', VString command) # rest) =
           (Return (Inl (UnknownValue ''char_load'' (VString command))),
            [Logf LInfo ''DoCommand key=%v'' [AStr ''char_load''],
             Logf LInfo ''DoCommand command=%v'' [AStr command]])"
  using assms by simp

text \<open>Claim C6, amended, at the command \<open>char_load = stop\<close>.\<close>

theorem unknown_string_value_reported_witness:
  "''stop'' \<noteq> ''start''
   \<and> fst (DoCommand service_b1 [(''char_load'', VString ''stop'')]) =
       Return (Inl (UnknownValue ''char_load'' (VString ''stop'')))
   \<and> snd (snd (DoCommand service_b1 [(''char_load'', VString ''stop'')])) = []
   \<and> fst (DoCommand2 service_b1 [(''char_load'', VString ''stop'')]) =
       Return (Inl (UnknownValue ''char_load'' (VString ''stop'')))
   \<and> pin_writes (snd (DoCommand2 service_b1 [(''char_load'', VString ''stop'')])) = []"
proof -
  have h: "''stop'' \<noteq> ''start''" by simp
  from unknown_string_value_reported [OF h, of service_b1 "[]"] h show ?thesis by simp
qed

text \<open>
  Claim C7 as stated fails at the empty map: the error returned there is the one for an
  unknown command map, which carries no key.
\<close>

theorem empty_command_is_not_unknown_key:
  "\<not> has_key [] ''char_load''
   \<and> fst (DoCommand service_b1 []) = Return (Inl (UnknownCommandMap []))
   \<and> fst (DoCommand2 service_b1 []) = Return (Inl (UnknownCommandMap []))
   \<and> \<not> is_UnknownKey (UnknownCommandMap [])"
  by (simp add: has_key_def)

text \<open>
  Claim C7, amended. For a command without the key \<open>char_load\<close>: when it has an entry,
  \<^verbatim>\<open>DoCommand\<close> returns the unknown-key error carrying the key visited first; when it is
  empty, \<^verbatim>\<open>DoCommand\<close> returns the unknown-command-map error. Either way it logs nothing,
  launches no goroutine and touches no pin. Both listings.
\<close>

theorem missing_char_load_reported:
  assumes "\<not> has_key cmd ''char_load''"
  shows "DoCommand s cmd =
           (case cmd of
              [] \<Rightarrow> (Return (Inl (UnknownCommandMap [])), [], [])
            | (k, v) # rest \<Rightarrow> (Return (Inl (UnknownKey k)), [], []))
       \<and> DoCommand2 s cmd =
           (case cmd of
              [] \<Rightarrow> (Return (Inl (UnknownCommandMap [])), [])
            | (k, v) # rest \<Rightarrow> (Return (Inl (UnknownKey k)), []))"
  using assms by (cases cmd) (auto simp: has_key_def)

text \<open>Claim C7, amended, at the command \<open>mode = x\<close>.\<close>

theorem missing_char_load_reported_witness:
  "\<not> has_key [(''mode'', VString ''x'')] ''char_load''
   \<and> DoCommand service_b1 [(''mode'', VString ''x'')] =
       (Return (Inl (UnknownKey ''mode'')), [], [])
   \<and> DoCommand2 service_b1 [(''mode'', VString ''x'')] =
       (Return (Inl (UnknownKey ''mode'')), [])"
proof -
  have h: "\<not> has_key [(''mode'', VString ''x'')] ''char_load''"
    by (simp add: has_key_def)
  from missing_char_load_reported [OF h, of service_b1] h show ?thesis by simp
qed

text \<open>
  Claim C9 as stated fails on a map with a second key: when the loop visits that key
  first, \<^verbatim>\<open>DoCommand\<close> returns the unknown-key error and never reaches the type
  assertion.
\<close>

theorem non_string_value_not_always_panic:
  "maps_to [(''mode'', VString ''x''), (''char_load'', VInt 5)] ''char_load'' (VInt 5)
   \<and> \<not> is_VString (VInt 5)
   \<and> fst (DoCommand service_b1 [(''mode'', VString ''x''), (''char_load'', VInt 5)]) =
        Return (Inl (UnknownKey ''mode''))
   \<and> fst (DoCommand2 service_b1 [(''mode'', VString ''x''), (''char_load'', VInt 5)]) =
        Return (Inl (UnknownKey ''mode''))"
  by (simp add: maps_to_def)

text \<open>
  Claim C9, amended. When the entry the loop visits first (the only one, in a map of one
  entry) maps \<open>char_load\<close> to a value that is not a string, \<^verbatim>\<open>DoCommand\<close> panics at the
  type assertion, after logging the key; it returns no error. Both listings.
\<close>

theorem non_string_first_entry_panics:
  assumes "\<not> is_VString val"
  shows "DoCommand s ((''char_load'', val) # rest) =
           (Panic (TypeAssertion val), [Logf LInfo ''DoCommand key=%v'' [AStr ''char_load'']], [])
       \<and> DoCommand2 s ((''char_load'', val) # rest) =
           (Panic (TypeAssertion val), [Logf LInfo ''DoCommand key=%v'' [AStr ''char_load'']])"
  using assms by (cases val) simp_all

text \<open>Claim C9, amended, at the command \<open>char_load = 5\<close>.\<close>

theorem non_string_first_entry_panics_witness:
  "\<not> is_VString (VInt 5)
   \<and> fst (DoCommand service_b1 [(''char_load'', VInt 5)]) = Panic (TypeAssertion (VInt 5))
   \<and> fst (DoCommand2 service_b1 [(''char_load'', VInt 5)]) = Panic (TypeAssertion (VInt 5))"
proof -
  have h: "\<not> is_VString (VInt 5)" by simp
  from non_string_first_entry_panics [OF h, of service_b1 "[]"] h show ?thesis by simp
qed

section \<open>A failed pin lookup\<close>

text \<open>
  Claim C8. When the lookup of pin 11 fails on the bound board, the pulse reports the
  lookup error and writes no pin: in the first listing \<^verbatim>\<open>bioCharProcess\<close> logs the error
  and returns before either write; in the second listing \<^verbatim>\<open>DoCommand\<close> returns the error
  before either write.
\<close>

theorem failed_lookup_writes_no_pin:
  assumes "b s = Some bd" and "GPIOPinByName bd ''11'' = Inl err"
  shows "bioCharProcess s = [PinByName ''11'', Log LError [AErr err]]
       \<and> pin_writes (bioCharProcess s) = []
       \<and> bioCharProcess_begin s = ([PinByName ''11'', Log LError [AErr err]], Finished)
       \<and> DoCommand2 s ((''char_load'', VString ''start'') # rest) =
           (Return (Inl err),
            [Logf LInfo ''DoCommand key=%v'' [AStr ''char_load''],
             Logf LInfo ''DoCommand command=%v'' [AStr ''start''],
             PinByName ''11''])
       \<and> pin_writes (snd (DoCommand2 s ((''char_load'', VString ''start'') # rest))) = []"
  using assms by (simp add: bioCharProcess_def bioCharProcess_begin_def)

text \<open>Claim C8 on the board without pin 11.\<close>

theorem failed_lookup_writes_no_pin_witness:
  "b failing_service = Some pinless_board
   \<and> GPIOPinByName pinless_board ''11'' = Inl (External ''no such pin'')
   \<and> bioCharProcess failing_service =
       [PinByName ''11'', Log LError [AErr (External ''no such pin'')]]
   \<and> pin_writes (bioCharProcess failing_service) = []
   \<and> fst (DoCommand2 failing_service start_cmd) = Return (Inl (External ''no such pin''))
   \<and> pin_writes (snd (DoCommand2 failing_service start_cmd)) = []"
proof -
  have h1: "b failing_service = Some pinless_board"
    by (simp add: failing_service_def)
  have h2: "GPIOPinByName pinless_board ''11'' = Inl (External ''no such pin'')"
    by (simp add: pinless_board_def)
  from failed_lookup_writes_no_pin [OF h1 h2, of "[]"] h1 h2 show ?thesis
    by (simp add: start_cmd_def)
qed

section \<open>Reconfiguration\<close>

text \<open>
  Claim C10 at the service bound to the healthy board, reconfigured with no
  dependencies: the second listing's \<^verbatim>\<open>Reconfigure\<close> returns an error and leaves the
  service with a \<^verbatim>\<open>nil\<close> board, where the first listing's returns an error and leaves
  the service as it was.
\<close>

theorem Reconfigure2_unbinds_board:
  "FromDependencies Map.empty ''b1'' = Inl (DependencyNotFound ''b1'')
   \<and> b service_b1 = Some healthy_board
   \<and> fst (Reconfigure2 service_b1 Map.empty conf_b1) = Some (UnableToGetBoard ''b1'' ''foo'')
   \<and> b (fst (snd (Reconfigure2 service_b1 Map.empty conf_b1))) = None
   \<and> fst (Reconfigure service_b1 Map.empty conf_b1) =
       Some (NoSourceCamera ''b1'' (DependencyNotFound ''b1''))
   \<and> fst (snd (Reconfigure service_b1 Map.empty conf_b1)) = service_b1"
  by (simp add: Reconfigure_def Reconfigure2_def FromDependencies_def conf_b1_def service_b1_def)

end
